theory Spec2Isabelle
  imports Complex_Main "HOL-Library.AList"
begin

section \<open>Python string primitives\<close>

text \<open>
  Messages are Python \<open>str\<close> values. They are modelled as \<open>string\<close> (lists of 8-bit
  characters), read as ASCII text: \<open>lower\<close> maps \<open>A\<close>..\<open>Z\<close> to \<open>a\<close>..\<open>z\<close>, whitespace is
  the ASCII part of \<open>str.isspace\<close>, digits are \<open>0\<close>..\<open>9\<close>. Python floats are modelled as
  \<open>real\<close> (exact arithmetic), wall-clock readings \<open>time.time()\<close> as a parameter \<open>now\<close>.
\<close>

definition isspace :: "char \<Rightarrow> bool" where
  "isspace c = (c \<in> set [CHR 0x09, CHR 0x0A, CHR 0x0B, CHR 0x0C, CHR 0x0D,
                          CHR 0x1C, CHR 0x1D, CHR 0x1E, CHR 0x1F, CHR 0x20])"

definition isdigit :: "char \<Rightarrow> bool" where
  "isdigit c = (c \<in> set ''0123456789'')"

definition lower_char :: "char \<Rightarrow> char" where
  "lower_char c =
     (case map_of (zip ''ABCDEFGHIJKLMNOPQRSTUVWXYZ'' ''abcdefghijklmnopqrstuvwxyz'') c of
        None \<Rightarrow> c | Some l \<Rightarrow> l)"

text \<open>\<^verbatim>\<open>s.lower()\<close>\<close>
definition lower :: "string \<Rightarrow> string" where
  "lower s = map lower_char s"

text \<open>\<^verbatim>\<open>s.startswith(p)\<close>\<close>
fun starts_with :: "string \<Rightarrow> string \<Rightarrow> bool" where
  "starts_with [] s = True"
| "starts_with (p # ps) [] = False"
| "starts_with (p # ps) (c # cs) = (p = c \<and> starts_with ps cs)"

text \<open>\<^verbatim>\<open>sub in s\<close>\<close>
fun contains :: "string \<Rightarrow> string \<Rightarrow> bool" where
  "contains sub [] = (sub = [])"
| "contains sub (c # cs) = (starts_with sub (c # cs) \<or> contains sub cs)"

text \<open>Lowest index at which \<open>sub\<close> occurs in \<open>s\<close>.\<close>
fun find_idx :: "string \<Rightarrow> string \<Rightarrow> nat option" where
  "find_idx sub [] = (if sub = [] then Some 0 else None)"
| "find_idx sub (c # cs) =
     (if starts_with sub (c # cs) then Some 0 else map_option Suc (find_idx sub cs))"

text \<open>\<^verbatim>\<open>s.find(sub, start)\<close> for \<open>start \<ge> 0\<close>: the index in \<open>s\<close>, or -1.\<close>
definition py_find :: "string \<Rightarrow> string \<Rightarrow> nat \<Rightarrow> int" where
  "py_find s sub start =
     (if start > length s then -1
      else case find_idx sub (drop start s) of None \<Rightarrow> -1 | Some i \<Rightarrow> int (start + i))"

text \<open>Highest index at which \<open>sub\<close> occurs in \<open>s\<close>.\<close>
fun rfind_idx :: "string \<Rightarrow> string \<Rightarrow> nat option" where
  "rfind_idx sub [] = (if sub = [] then Some 0 else None)"
| "rfind_idx sub (c # cs) =
     (case rfind_idx sub cs of
        Some i \<Rightarrow> Some (Suc i)
      | None \<Rightarrow> if starts_with sub (c # cs) then Some 0 else None)"

text \<open>\<^verbatim>\<open>s.rfind(sub, 0, stop)\<close> for \<open>stop \<ge> 0\<close>: the search is inside \<open>s[0:stop]\<close>.\<close>
definition py_rfind :: "string \<Rightarrow> string \<Rightarrow> nat \<Rightarrow> int" where
  "py_rfind s sub stop = (case rfind_idx sub (take stop s) of None \<Rightarrow> -1 | Some i \<Rightarrow> int i)"

text \<open>\<^verbatim>\<open>s[a:b]\<close> for indices \<open>a, b \<ge> 0\<close>.\<close>
definition slice :: "string \<Rightarrow> nat \<Rightarrow> nat \<Rightarrow> string" where
  "slice s a b = drop a (take b s)"

text \<open>\<^verbatim>\<open>s.strip()\<close>\<close>
definition strip :: "string \<Rightarrow> string" where
  "strip s = rev (dropWhile isspace (rev (dropWhile isspace s)))"

text \<open>\<^verbatim>\<open>s.split()\<close>: the maximal runs of non-whitespace; \<open>w\<close> is the word being read.\<close>
fun split_acc :: "string \<Rightarrow> string \<Rightarrow> string list" where
  "split_acc w [] = (if w = [] then [] else [w])"
| "split_acc w (c # cs) =
     (if isspace c then (if w = [] then split_acc [] cs else w # split_acc [] cs)
      else split_acc (w @ [c]) cs)"

definition split :: "string \<Rightarrow> string list" where
  "split s = split_acc [] s"

text \<open>\<^verbatim>\<open>sum(1 for x in xs if x in message)\<close>\<close>
definition count_in :: "string list \<Rightarrow> string \<Rightarrow> nat" where
  "count_in xs message = length (filter (\<lambda>x. contains x message) xs)"

text \<open>\<^verbatim>\<open>any(x in message for x in xs)\<close>\<close>
definition any_in :: "string list \<Rightarrow> string \<Rightarrow> bool" where
  "any_in xs message = list_ex (\<lambda>x. contains x message) xs"

definition digit_val :: "char \<Rightarrow> nat" where
  "digit_val c = (case map_of (zip ''0123456789'' [0 ..< 10]) c of None \<Rightarrow> 0 | Some d \<Rightarrow> d)"

text \<open>\<^verbatim>\<open>int(ds)\<close> for a non-empty string of digits.\<close>
definition int_of_digits :: "string \<Rightarrow> nat" where
  "int_of_digits ds = foldl (\<lambda>n c. 10 * n + digit_val c) 0 ds"

text \<open>\<^verbatim>\<open>str(n)\<close> for an integer.\<close>
fun show_nat :: "nat \<Rightarrow> string" where
  "show_nat n =
     (if n < 10 then [''0123456789'' ! n]
      else show_nat (n div 10) @ [''0123456789'' ! (n mod 10)])"

definition show_int :: "int \<Rightarrow> string" where
  "show_int i = (if i < 0 then ''-'' @ show_nat (nat (- i)) else show_nat (nat i))"

text \<open>\<^verbatim>\<open>int(x)\<close> for a float: truncation towards zero.\<close>
definition trunc :: "real \<Rightarrow> int" where
  "trunc x = (if x \<ge> 0 then \<lfloor>x\<rfloor> else \<lceil>x\<rceil>)"

subsection \<open>The regular expressions of the source\<close>

text \<open>
  \<^verbatim>\<open>re.search\<close> tries the pattern at every position from the left and returns the first
  match; \<open>re_search m s\<close> does so for a matcher \<open>m\<close> anchored at the head of its argument.
\<close>

fun re_search :: "(string \<Rightarrow> 'a option) \<Rightarrow> string \<Rightarrow> 'a option" where
  "re_search m [] = m []"
| "re_search m (c # cs) = (case m (c # cs) of Some r \<Rightarrow> Some r | None \<Rightarrow> re_search m cs)"

text \<open>The rest of \<open>s\<close> after the literal \<open>p\<close>, when \<open>s\<close> starts with it.\<close>
fun strip_prefix :: "string \<Rightarrow> string \<Rightarrow> string option" where
  "strip_prefix [] s = Some s"
| "strip_prefix (p # ps) [] = None"
| "strip_prefix (p # ps) (c # cs) = (if p = c then strip_prefix ps cs else None)"

text \<open>
  A pattern \<^verbatim>\<open>pre(\d+)suf\<close> with literal \<open>pre\<close> and \<open>suf\<close>, anchored: the group \<^verbatim>\<open>\d+\<close> is
  greedy, and giving digits back never helps because \<open>suf\<close> is empty or starts with a
  non-digit. The result is \<^verbatim>\<open>int(match.group(1))\<close>.
\<close>
definition match_digits :: "string \<Rightarrow> string \<Rightarrow> string \<Rightarrow> nat option" where
  "match_digits pre suf s =
     (case strip_prefix pre s of
        None \<Rightarrow> None
      | Some r \<Rightarrow>
          (let ds = takeWhile isdigit r in
           if ds = [] then None
           else case strip_prefix suf (dropWhile isdigit r) of
                  None \<Rightarrow> None
                | Some _ \<Rightarrow> Some (int_of_digits ds)))"

definition is_word_char :: "char \<Rightarrow> bool" where
  "is_word_char c =
     (c \<in> set ''abcdefghijklmnopqrstuvwxyzABCDEFGHIJKLMNOPQRSTUVWXYZ0123456789_'')"

text \<open>
  \<^verbatim>\<open>re.search(r'\b(?:w1|w2|...)\b', s)\<close> as a truth value, for words made of word
  characters: \<open>prev\<close> tells whether the character before the current position is a word
  character (false at the start of the string).
\<close>
fun search_word :: "string list \<Rightarrow> bool \<Rightarrow> string \<Rightarrow> bool" where
  "search_word ws prev [] = False"
| "search_word ws prev (c # cs) =
     ((\<not> prev \<and>
       list_ex (\<lambda>w. case strip_prefix w (c # cs) of
                       None \<Rightarrow> False
                     | Some [] \<Rightarrow> True
                     | Some (d # _) \<Rightarrow> \<not> is_word_char d) ws)
      \<or> search_word ws (is_word_char c) cs)"

section \<open>Data model\<close>

datatype SafetyLevel = INFO | WARNING | CRITICAL | EMERGENCY

datatype SafetyCategory =
    OVERTRAINING | DATA_INCONSISTENCY | LOW_ENGAGEMENT | RESISTANCE | CREATIVITY_MISUSE
  | MENTAL_HEALTH | PERFORMANCE_DROP | TEAM_CONFLICT | REWARD_MISUSE | LANGUAGE_BARRIER
  | FALSE_REPORTING | BURNOUT_LAZINESS

text \<open>The \<^verbatim>\<open>.value\<close> of the two enums.\<close>
fun level_value :: "SafetyLevel \<Rightarrow> string" where
  "level_value INFO = ''info''"
| "level_value WARNING = ''warning''"
| "level_value CRITICAL = ''critical''"
| "level_value EMERGENCY = ''emergency''"

fun category_value :: "SafetyCategory \<Rightarrow> string" where
  "category_value OVERTRAINING = ''overtraining''"
| "category_value DATA_INCONSISTENCY = ''data_inconsistency''"
| "category_value LOW_ENGAGEMENT = ''low_engagement''"
| "category_value RESISTANCE = ''resistance''"
| "category_value CREATIVITY_MISUSE = ''creativity_misuse''"
| "category_value MENTAL_HEALTH = ''mental_health''"
| "category_value PERFORMANCE_DROP = ''performance_drop''"
| "category_value TEAM_CONFLICT = ''team_conflict''"
| "category_value REWARD_MISUSE = ''reward_misuse''"
| "category_value LANGUAGE_BARRIER = ''language_barrier''"
| "category_value FALSE_REPORTING = ''false_reporting''"
| "category_value BURNOUT_LAZINESS = ''burnout_laziness''"

text \<open>The values found in the \<^verbatim>\<open>context\<close> dictionary of an alert.\<close>
datatype ctx_value = CInt int | CFloat real | CStr string | CBool bool | CFloats "real list"

record SafetyAlert =
  category :: SafetyCategory
  level :: SafetyLevel
  message :: string
  timestamp :: real
  user_id :: string
  alert_context :: "(string \<times> ctx_value) list"
  recommended_action :: string
  escalation_required :: bool

text \<open>The dictionary that \<^verbatim>\<open>_monitor_safety\<close> stores in the profile for an alert.\<close>
record stored_alert =
  sa_category :: string
  sa_level :: string
  sa_message :: string
  sa_timestamp :: real
  sa_recommended_action :: string
  sa_escalation_required :: bool

record insight =
  i_content :: string
  i_timestamp :: real

record conversation_entry =
  e_role :: string
  e_content :: string
  e_timestamp :: real

text \<open>
  \<^verbatim>\<open>user_profile\<close>: dictionaries that are iterated or averaged are association lists in
  insertion order (\<open>AList.update\<close> overwrites in place or appends, as a Python \<open>dict\<close>
  does); \<^verbatim>\<open>progress\<close> is only looked up and stored into, and is a map.
\<close>
record user_profile =
  goals :: "string list"
  preferences :: "(string \<times> string list) list"
  progress :: "string \<rightharpoonup> real"
  insights :: "insight list"
  performance_metrics :: "(string \<times> real) list"
  mental_state :: "(string \<times> int) list"
  safety_alerts :: "stored_alert list"
  safety_recommendations :: "string list"

record engagement =
  message_length :: "nat list"
  response_time :: "real list"
  question_count :: nat
  enthusiasm_score :: "real list"

text \<open>
  \<^verbatim>\<open>SafetyMonitor\<close>: the thresholds and the word lists set in \<^verbatim>\<open>__init__\<close> are never
  assigned again and are constants below.
\<close>
record SafetyMonitor =
  alerts :: "SafetyAlert list"
  user_sessions :: "string \<rightharpoonup> real"
  performance_baselines :: "string \<rightharpoonup> real"
  engagement_metrics :: "string \<rightharpoonup> engagement"
  mental_health_indicators :: "string \<rightharpoonup> real"

record UserMemory =
  um_user_id :: string
  conversation_history :: "conversation_entry list"
  profile :: user_profile
  safety_monitor :: SafetyMonitor

definition new_SafetyMonitor :: SafetyMonitor where
  "new_SafetyMonitor =
     \<lparr>alerts = [], user_sessions = Map.empty, performance_baselines = Map.empty,
      engagement_metrics = Map.empty, mental_health_indicators = Map.empty\<rparr>"

text \<open>\<^verbatim>\<open>UserMemory.__init__\<close>\<close>
definition new_UserMemory :: "string \<Rightarrow> UserMemory" where
  "new_UserMemory uid =
     \<lparr>um_user_id = uid, conversation_history = [],
      profile = \<lparr>goals = [], preferences = [], progress = Map.empty, insights = [],
                 performance_metrics = [], mental_state = [], safety_alerts = [],
                 safety_recommendations = []\<rparr>,
      safety_monitor = new_SafetyMonitor\<rparr>"

section \<open>The safety monitor (\<^verbatim>\<open>coach/safety.py\<close>)\<close>

definition mental_health_red_flags :: "string list" where
  "mental_health_red_flags =
     [''suicide'', ''kill myself'', ''end it all'', ''not worth living'',
      ''hopeless'', ''worthless'', ''burden'', ''better off dead'',
      ''self harm'', ''cut myself'', ''hurt myself'']"

definition overtraining_indicators :: "string list" where
  "overtraining_indicators =
     [''exhausted'', ''burned out'', ''overtrained'', ''plateaued'',
      ''no progress'', ''stagnant'', ''regressing'', ''injured'',
      ''pain'', ''sore'', ''tired'', ''fatigued'', ''drained'']"

definition resistance_patterns :: "string list" where
  "resistance_patterns =
     [''i can't'', ''impossible'', ''won't work'', ''tried that'',
      ''doesn't help'', ''waste of time'', ''stupid'', ''pointless'',
      ''not for me'', ''doesn't fit'', ''too hard'', ''too easy'']"

text \<open>The alternatives of the three \<^verbatim>\<open>complexity_patterns\<close>, each \<^verbatim>\<open>\b(?:...)\b\<close>.\<close>
definition complexity_patterns :: "string list list" where
  "complexity_patterns =
     [[''utilize'', ''implement'', ''facilitate'', ''optimize'', ''leverage''],
      [''paradigm'', ''methodology'', ''framework'', ''infrastructure''],
      [''consequently'', ''furthermore'', ''moreover'', ''nevertheless'']]"

definition detect_overtraining ::
  "real \<Rightarrow> string \<Rightarrow> string \<Rightarrow> user_profile \<Rightarrow> SafetyAlert list" where
  "detect_overtraining now msg uid prof =
     (let fatigue_score =
            real (count_in overtraining_indicators msg) / real (length overtraining_indicators)
      in (if fatigue_score > 0.8 then
            [\<lparr>category = OVERTRAINING, level = WARNING,
              message = ''Signs of overtraining detected. Consider rest and recovery.'',
              timestamp = now, user_id = uid,
              alert_context = [(''fatigue_score'', CFloat fatigue_score), (''message'', CStr msg)],
              recommended_action =
                ''Enforce mandatory rest period and reduce training intensity'',
              escalation_required = True\<rparr>]
          else []) @
         (if contains ''training'' msg \<and> contains ''every day'' msg then
            [\<lparr>category = OVERTRAINING, level = INFO,
              message = ''Daily training without rest days detected.'',
              timestamp = now, user_id = uid,
              alert_context = [(''message'', CStr msg)],
              recommended_action = ''Recommend rest days and recovery protocols'',
              escalation_required = False\<rparr>]
          else []))"

definition detect_data_inconsistency ::
  "real \<Rightarrow> string \<Rightarrow> string \<Rightarrow> user_profile \<Rightarrow> SafetyAlert list" where
  "detect_data_inconsistency now msg uid prof =
     (let pm = performance_metrics prof in
      (if pm \<noteq> [] \<and> contains ''improved by'' msg \<and> any_in (map fst pm) msg then
         (case re_search (match_digits ''improved by '' ''%'') msg of
            None \<Rightarrow> []
          | Some improvement \<Rightarrow>
              if improvement > 50 then
                [\<lparr>category = DATA_INCONSISTENCY, level = WARNING,
                  message = ''Unusually high performance improvement reported. Please verify data accuracy.'',
                  timestamp = now, user_id = uid,
                  alert_context =
                    [(''improvement'', CInt (int improvement)), (''message'', CStr msg)],
                  recommended_action =
                    ''Request verification and cross-check with objective measures'',
                  escalation_required = False\<rparr>]
              else [])
       else []) @
      (if contains ''but'' msg \<and> (contains ''good'' msg \<or> contains ''bad'' msg) then
         [\<lparr>category = DATA_INCONSISTENCY, level = INFO,
           message = ''Conflicting statements detected in user feedback.'',
           timestamp = now, user_id = uid,
           alert_context = [(''message'', CStr msg)],
           recommended_action = ''Seek clarification and ask specific questions'',
           escalation_required = False\<rparr>]
       else []))"

text \<open>\<^verbatim>\<open>_calculate_enthusiasm_score\<close>\<close>
definition calculate_enthusiasm_score :: "string \<Rightarrow> real" where
  "calculate_enthusiasm_score msg =
     (let positive_count =
            count_in [''excited'', ''great'', ''awesome'', ''amazing'', ''fantastic'',
                      ''love'', ''enjoy''] msg;
          negative_count =
            count_in [''boring'', ''hate'', ''terrible'', ''awful'', ''disappointed'',
                      ''frustrated''] msg;
          total_words = length (split msg)
      in if total_words = 0 then 0.5
         else max 0 (min 1 ((real positive_count - real negative_count) / real total_words
                            + 0.5)))"

definition new_engagement :: engagement where
  "new_engagement =
     \<lparr>message_length = [], response_time = [], question_count = 0, enthusiasm_score = []\<rparr>"

text \<open>The only detector that writes: it returns the monitor with the user's metrics updated.\<close>
definition detect_low_engagement ::
  "real \<Rightarrow> string \<Rightarrow> string \<Rightarrow> user_profile \<Rightarrow> SafetyMonitor
   \<Rightarrow> SafetyAlert list \<times> SafetyMonitor" where
  "detect_low_engagement now msg uid prof mon =
     (let em = (case engagement_metrics mon uid of None \<Rightarrow> new_engagement | Some e \<Rightarrow> e);
          msg_length = length (split msg);
          enthusiasm = calculate_enthusiasm_score msg;
          em' = em\<lparr>message_length := message_length em @ [msg_length],
                   enthusiasm_score := enthusiasm_score em @ [enthusiasm]\<rparr>;
          mon' = mon\<lparr>engagement_metrics := (engagement_metrics mon)(uid \<mapsto> em')\<rparr>;
          recent_enthusiasm =
            drop (length (enthusiasm_score em') - 5) (enthusiasm_score em')
      in ((if msg_length < 5 then
             [\<lparr>category = LOW_ENGAGEMENT, level = WARNING,
               message = ''Very short response detected. User may be disengaged.'',
               timestamp = now, user_id = uid,
               alert_context =
                 [(''message_length'', CInt (int msg_length)), (''message'', CStr msg)],
               recommended_action =
                 ''Adapt tone to be more engaging and ask open-ended questions'',
               escalation_required = False\<rparr>]
           else []) @
          (if length recent_enthusiasm \<ge> 3 \<and>
              sum_list recent_enthusiasm / real (length recent_enthusiasm) < 0.3 then
             [\<lparr>category = LOW_ENGAGEMENT, level = WARNING,
               message = ''Declining enthusiasm detected over recent interactions.'',
               timestamp = now, user_id = uid,
               alert_context =
                 [(''enthusiasm_trend'', CFloats recent_enthusiasm), (''message'', CStr msg)],
               recommended_action =
                 ''Switch to more supportive coaching style and explore motivation barriers'',
               escalation_required = False\<rparr>]
           else []),
          mon'))"

definition detect_resistance ::
  "real \<Rightarrow> string \<Rightarrow> string \<Rightarrow> user_profile \<Rightarrow> SafetyAlert list" where
  "detect_resistance now msg uid prof =
     (let resistance_score =
            real (count_in resistance_patterns msg) / real (length resistance_patterns)
      in if resistance_score > 0.6 then
           [\<lparr>category = RESISTANCE, level = WARNING,
             message = ''High resistance detected in user response.'',
             timestamp = now, user_id = uid,
             alert_context =
               [(''resistance_score'', CFloat resistance_score), (''message'', CStr msg)],
             recommended_action =
               ''Provide evidence-based reasoning and address concerns directly'',
             escalation_required = False\<rparr>]
         else [])"

definition detect_creativity_misuse ::
  "real \<Rightarrow> string \<Rightarrow> string \<Rightarrow> user_profile \<Rightarrow> SafetyAlert list" where
  "detect_creativity_misuse now msg uid prof =
     (let creativity_indicators =
            count_in [''try something new'', ''experiment'', ''innovative'', ''creative'',
                      ''unconventional'', ''different approach'', ''outside the box''] msg
      in if creativity_indicators > 0 then
           (if any_in [''injury'', ''dangerous'', ''risky'', ''unsafe''] msg then
              [\<lparr>category = CREATIVITY_MISUSE, level = CRITICAL,
                message = ''Potentially dangerous creative approach detected.'',
                timestamp = now, user_id = uid,
                alert_context =
                  [(''creativity_indicators'', CInt (int creativity_indicators)),
                   (''message'', CStr msg)],
                recommended_action = ''Validate safety before encouraging creative approaches'',
                escalation_required = True\<rparr>]
            else
              [\<lparr>category = CREATIVITY_MISUSE, level = INFO,
                message = ''Creative approach suggested. Validating safety.'',
                timestamp = now, user_id = uid,
                alert_context =
                  [(''creativity_indicators'', CInt (int creativity_indicators)),
                   (''message'', CStr msg)],
                recommended_action =
                  ''Ensure safety protocols are in place before encouragement'',
                escalation_required = False\<rparr>])
         else [])"

definition detect_mental_health_risks ::
  "real \<Rightarrow> string \<Rightarrow> string \<Rightarrow> user_profile \<Rightarrow> SafetyAlert list" where
  "detect_mental_health_risks now msg uid prof =
     (let red_flag_count = count_in mental_health_red_flags msg;
          anxiety_indicators = [''anxious'', ''worried'', ''stressed'', ''overwhelmed'', ''panic''];
          depression_indicators = [''sad'', ''depressed'', ''hopeless'', ''worthless'', ''empty''];
          anxiety_score = count_in anxiety_indicators msg;
          depression_score = count_in depression_indicators msg;
          mental_health_risk =
            real (anxiety_score + depression_score) /
            real (length anxiety_indicators + length depression_indicators)
      in (if red_flag_count > 0 then
            [\<lparr>category = MENTAL_HEALTH, level = EMERGENCY,
              message =
                ''Critical mental health indicators detected. Immediate escalation required.'',
              timestamp = now, user_id = uid,
              alert_context =
                [(''red_flag_count'', CInt (int red_flag_count)), (''message'', CStr msg)],
              recommended_action =
                ''Immediately suggest professional help and provide crisis resources'',
              escalation_required = True\<rparr>]
          else []) @
         (if mental_health_risk > 0.7 then
            [\<lparr>category = MENTAL_HEALTH, level = WARNING,
              message =
                ''Signs of anxiety or depression detected. Suggest professional support.'',
              timestamp = now, user_id = uid,
              alert_context =
                [(''mental_health_risk'', CFloat mental_health_risk), (''message'', CStr msg)],
              recommended_action =
                ''Gently suggest professional mental health support and reduce pressure'',
              escalation_required = True\<rparr>]
          else []))"

definition detect_performance_drop ::
  "real \<Rightarrow> string \<Rightarrow> string \<Rightarrow> user_profile \<Rightarrow> SafetyAlert list" where
  "detect_performance_drop now msg uid prof =
     (let has_decline =
            any_in [''worse'', ''declined'', ''dropped'', ''regressed'', ''struggling'',
                    ''failing''] msg;
          has_injury =
            any_in [''injured'', ''hurt'', ''pain'', ''sore'', ''injury'', ''hurt''] msg
      in if has_decline \<or> has_injury then
           [\<lparr>category = PERFORMANCE_DROP,
             level = (if has_injury then CRITICAL else WARNING),
             message =
               ''Performance decline or injury detected. Adjusting coaching intensity.'',
             timestamp = now, user_id = uid,
             alert_context =
               [(''has_decline'', CBool has_decline), (''has_injury'', CBool has_injury),
                (''message'', CStr msg)],
             recommended_action =
               ''Stop high-intensity advice and focus on recovery/support'',
             escalation_required = has_injury\<rparr>]
         else [])"

definition detect_team_conflict ::
  "real \<Rightarrow> string \<Rightarrow> string \<Rightarrow> user_profile \<Rightarrow> SafetyAlert list" where
  "detect_team_conflict now msg uid prof =
     (let has_conflict =
            any_in [''team'', ''teammate'', ''coach'', ''conflict'', ''argument'',
                    ''disagreement''] msg;
          has_ego = any_in [''better than'', ''superior'', ''best'', ''worst'', ''inferior''] msg
      in if has_conflict then
           [\<lparr>category = TEAM_CONFLICT, level = WARNING,
             message =
               ''Team conflict detected. Focus on fair motivation without ego inflation.'',
             timestamp = now, user_id = uid,
             alert_context =
               [(''has_conflict'', CBool has_conflict), (''has_ego'', CBool has_ego),
                (''message'', CStr msg)],
             recommended_action =
               ''Promote team unity and individual growth without comparison'',
             escalation_required = False\<rparr>]
         else [])"

definition detect_reward_misuse ::
  "real \<Rightarrow> string \<Rightarrow> string \<Rightarrow> user_profile \<Rightarrow> SafetyAlert list" where
  "detect_reward_misuse now msg uid prof =
     (let has_gaming =
            any_in [''easy points'', ''quick win'', ''gaming'', ''cheating'', ''shortcut''] msg;
          has_reward_focus =
            any_in [''reward'', ''points'', ''achievement'', ''badge'', ''level''] msg
      in if has_gaming \<or> (has_reward_focus \<and> contains ''easy'' msg) then
           [\<lparr>category = REWARD_MISUSE, level = WARNING,
             message = ''Potential reward system gaming detected.'',
             timestamp = now, user_id = uid,
             alert_context =
               [(''has_gaming'', CBool has_gaming),
                (''has_reward_focus'', CBool has_reward_focus), (''message'', CStr msg)],
             recommended_action =
               ''Adjust incentives to focus on genuine progress and effort'',
             escalation_required = False\<rparr>]
         else [])"

definition detect_language_barriers ::
  "real \<Rightarrow> string \<Rightarrow> string \<Rightarrow> user_profile \<Rightarrow> SafetyAlert list" where
  "detect_language_barriers now msg uid prof =
     (let complexity_score =
            length (filter (\<lambda>ws. search_word ws False msg) complexity_patterns);
          has_confusion =
            any_in [''i am not sure'', ''i don't understand'', ''confused'', ''unclear''] msg
      in if complexity_score > 2 \<or> has_confusion then
           [\<lparr>category = LANGUAGE_BARRIER, level = INFO,
             message = ''Language barrier detected. Simplifying instructions.'',
             timestamp = now, user_id = uid,
             alert_context =
               [(''complexity_score'', CInt (int complexity_score)),
                (''has_confusion'', CBool has_confusion), (''message'', CStr msg)],
             recommended_action =
               ''Rephrase instructions in simpler language and provide examples'',
             escalation_required = False\<rparr>]
         else [])"

text \<open>
  The four \<^verbatim>\<open>rating_patterns\<close>, each as its literal prefix and the literal that follows
  the group \<^verbatim>\<open>(\d+)\<close> (empty for the last two).
\<close>
definition rating_patterns :: "(string \<times> string) list" where
  "rating_patterns =
     [(''rate myself '', ''/10''), (''i am '', ''/10''), (''my level is '', []),
      (''i would say '', [])]"

text \<open>\<^verbatim>\<open>sum(performance_metrics.values()) / len(performance_metrics)\<close>\<close>
definition avg_performance :: "(string \<times> real) list \<Rightarrow> real" where
  "avg_performance pm = sum_list (map snd pm) / real (length pm)"

definition false_reporting_alert ::
  "real \<Rightarrow> string \<Rightarrow> string \<Rightarrow> nat \<Rightarrow> real \<Rightarrow> SafetyAlert" where
  "false_reporting_alert now msg uid self_rating avg =
     \<lparr>category = FALSE_REPORTING, level = WARNING,
      message = ''Self-rating appears inflated compared to performance data.'',
      timestamp = now, user_id = uid,
      alert_context =
        [(''self_rating'', CInt (int self_rating)), (''avg_performance'', CFloat avg),
         (''message'', CStr msg)],
      recommended_action =
        ''Request objective performance measures and provide honest feedback'',
      escalation_required = False\<rparr>"

text \<open>The body of the loop over the patterns, for one pattern.\<close>
definition false_reporting_step ::
  "real \<Rightarrow> string \<Rightarrow> string \<Rightarrow> user_profile \<Rightarrow> string \<times> string \<Rightarrow> SafetyAlert list" where
  "false_reporting_step now msg uid prof pat =
     (case re_search (match_digits (fst pat) (snd pat)) msg of
        None \<Rightarrow> []
      | Some self_rating \<Rightarrow>
          (let pm = performance_metrics prof in
           if pm \<noteq> [] then
             (let avg = avg_performance pm in
              if real self_rating > avg * 2 then
                [false_reporting_alert now msg uid self_rating avg]
              else [])
           else []))"

definition detect_false_reporting ::
  "real \<Rightarrow> string \<Rightarrow> string \<Rightarrow> user_profile \<Rightarrow> SafetyAlert list" where
  "detect_false_reporting now msg uid prof =
     concat (map (false_reporting_step now msg uid prof) rating_patterns)"

definition burnout_indicators :: "string list" where
  "burnout_indicators =
     [''exhausted'', ''burned out'', ''overwhelmed'', ''can't continue'',
      ''mentally drained'', ''physically drained'', ''no energy'']"

definition laziness_indicators :: "string list" where
  "laziness_indicators =
     [''don't feel like it'', ''too lazy'', ''can't be bothered'',
      ''not motivated'', ''don't want to'', ''avoiding'']"

definition detect_burnout_vs_laziness ::
  "real \<Rightarrow> string \<Rightarrow> string \<Rightarrow> user_profile \<Rightarrow> SafetyAlert list" where
  "detect_burnout_vs_laziness now msg uid prof =
     (let burnout_score = count_in burnout_indicators msg;
          laziness_score = count_in laziness_indicators msg
      in if burnout_score > laziness_score \<and> burnout_score > 0 then
           [\<lparr>category = BURNOUT_LAZINESS, level = WARNING,
             message = ''Genuine burnout detected. Prioritize recovery and rest.'',
             timestamp = now, user_id = uid,
             alert_context =
               [(''burnout_score'', CInt (int burnout_score)),
                (''laziness_score'', CInt (int laziness_score)), (''message'', CStr msg)],
             recommended_action = ''Implement recovery protocols and reduce training load'',
             escalation_required = True\<rparr>]
         else if laziness_score > burnout_score \<and> laziness_score > 0 then
           [\<lparr>category = BURNOUT_LAZINESS, level = INFO,
             message = ''Avoidance behavior detected. Address motivation barriers.'',
             timestamp = now, user_id = uid,
             alert_context =
               [(''burnout_score'', CInt (int burnout_score)),
                (''laziness_score'', CInt (int laziness_score)), (''message'', CStr msg)],
             recommended_action = ''Focus on motivation and discipline strategies'',
             escalation_required = False\<rparr>]
         else [])"

text \<open>
  \<^verbatim>\<open>monitor_message\<close>: the profile is an argument that is only read; the result is the
  list returned together with the monitor after the call.
\<close>
definition monitor_message ::
  "real \<Rightarrow> string \<Rightarrow> string \<Rightarrow> user_profile \<Rightarrow> SafetyMonitor
   \<Rightarrow> SafetyAlert list \<times> SafetyMonitor" where
  "monitor_message now msg uid prof mon =
     (let message_lower = lower msg;
          a1 = detect_overtraining now message_lower uid prof;
          a2 = detect_data_inconsistency now message_lower uid prof;
          (a3, mon') = detect_low_engagement now message_lower uid prof mon;
          a4 = detect_resistance now message_lower uid prof;
          a5 = detect_creativity_misuse now message_lower uid prof;
          a6 = detect_mental_health_risks now message_lower uid prof;
          a7 = detect_performance_drop now message_lower uid prof;
          a8 = detect_team_conflict now message_lower uid prof;
          a9 = detect_reward_misuse now message_lower uid prof;
          a10 = detect_language_barriers now message_lower uid prof;
          a11 = detect_false_reporting now message_lower uid prof;
          a12 = detect_burnout_vs_laziness now message_lower uid prof;
          new_alerts = a1 @ a2 @ a3 @ a4 @ a5 @ a6 @ a7 @ a8 @ a9 @ a10 @ a11 @ a12
      in (new_alerts, mon'\<lparr>alerts := alerts mon' @ new_alerts\<rparr>))"

fun recommendation :: "SafetyCategory \<Rightarrow> string" where
  "recommendation OVERTRAINING =
     ''Implement mandatory rest periods and reduce training intensity''"
| "recommendation MENTAL_HEALTH =
     ''Prioritize mental health support and consider professional referral''"
| "recommendation PERFORMANCE_DROP = ''Focus on recovery and reduce high-intensity coaching''"
| "recommendation LOW_ENGAGEMENT = ''Adapt coaching style to be more engaging and supportive''"
| "recommendation RESISTANCE =
     ''Provide evidence-based reasoning and address concerns directly''"
| "recommendation CREATIVITY_MISUSE = ''Validate safety before encouraging creative approaches''"
| "recommendation TEAM_CONFLICT = ''Promote fair motivation without ego inflation''"
| "recommendation REWARD_MISUSE = ''Adjust incentives to focus on genuine progress''"
| "recommendation LANGUAGE_BARRIER = ''Simplify language and provide clear examples''"
| "recommendation FALSE_REPORTING = ''Request objective measures and provide honest feedback''"
| "recommendation BURNOUT_LAZINESS = ''Distinguish between burnout and discipline issues''"
| "recommendation DATA_INCONSISTENCY = ''Verify data accuracy and seek clarification''"

text \<open>The keys of the \<^verbatim>\<open>categories\<close> dictionary, in the order of their first insertion.\<close>
fun first_seen :: "'a list \<Rightarrow> 'a list \<Rightarrow> 'a list" where
  "first_seen seen [] = seen"
| "first_seen seen (x # xs) = first_seen (if x \<in> set seen then seen else seen @ [x]) xs"

definition get_safety_recommendations :: "SafetyMonitor \<Rightarrow> string \<Rightarrow> string list" where
  "get_safety_recommendations mon uid =
     (let user_alerts = filter (\<lambda>a. user_id a = uid) (alerts mon) in
      if user_alerts = [] then [''No safety concerns detected. Continue normal coaching.'']
      else map recommendation (first_seen [] (map category user_alerts)))"

definition get_escalation_alerts :: "SafetyMonitor \<Rightarrow> SafetyAlert list" where
  "get_escalation_alerts mon = filter escalation_required (alerts mon)"

definition clear_user_alerts :: "SafetyMonitor \<Rightarrow> string \<Rightarrow> SafetyMonitor" where
  "clear_user_alerts mon uid = mon\<lparr>alerts := filter (\<lambda>a. user_id a \<noteq> uid) (alerts mon)\<rparr>"

section \<open>The extractors of \<^verbatim>\<open>coach/sports.py\<close>\<close>

text \<open>\<^verbatim>\<open>(?:w1|w2|...)\<close> anchored: the rest after the first alternative that matches.\<close>
fun first_prefix :: "string list \<Rightarrow> string \<Rightarrow> string option" where
  "first_prefix [] s = None"
| "first_prefix (w # ws) s =
     (case strip_prefix w s of Some r \<Rightarrow> Some r | None \<Rightarrow> first_prefix ws s)"

text \<open>\<^verbatim>\<open>\s+\<close> anchored: the rest after a non-empty run of whitespace.\<close>
definition skip_spaces1 :: "string \<Rightarrow> string option" where
  "skip_spaces1 s = (if takeWhile isspace s = [] then None else Some (dropWhile isspace s))"

text \<open>
  \<^verbatim>\<open>(?:scored|made|got)\s+(\d+)\s+(?:goals?|points?|runs?|baskets?)\<close>, anchored; the
  result is \<^verbatim>\<open>int(group(1))\<close>. The greedy runs are followed by a character of another
  class, so the first attempt at a position decides.
\<close>
definition match_score :: "string \<Rightarrow> nat option" where
  "match_score s =
     (case first_prefix [''scored'', ''made'', ''got''] s of
        None \<Rightarrow> None
      | Some r1 \<Rightarrow>
          (case skip_spaces1 r1 of
             None \<Rightarrow> None
           | Some r2 \<Rightarrow>
               (let ds = takeWhile isdigit r2 in
                if ds = [] then None
                else case skip_spaces1 (dropWhile isdigit r2) of
                       None \<Rightarrow> None
                     | Some r3 \<Rightarrow>
                         if list_ex (\<lambda>w. starts_with w r3)
                              [''goal'', ''point'', ''run'', ''basket'']
                         then Some (int_of_digits ds) else None)))"

text \<open>\<^verbatim>\<open>(?:X(\d+))?\<close> anchored, for a one-character literal \<open>X\<close>: the group and the rest.\<close>
definition opt_group :: "char \<Rightarrow> string \<Rightarrow> string option \<times> string" where
  "opt_group x s =
     (case s of
        [] \<Rightarrow> (None, s)
      | c # r \<Rightarrow>
          if c = x \<and> takeWhile isdigit r \<noteq> [] then
            (Some (takeWhile isdigit r), dropWhile isdigit r)
          else (None, s))"

text \<open>
  \<^verbatim>\<open>(?:ran|swam|cycled|covered)\s+(\d+(?:\.\d+)?)\s+(?:km|kilometers|miles|meters|m)\<close>,
  anchored; the result is \<^verbatim>\<open>float(group(1))\<close>.
\<close>
definition match_distance :: "string \<Rightarrow> real option" where
  "match_distance s =
     (case first_prefix [''ran'', ''swam'', ''cycled'', ''covered''] s of
        None \<Rightarrow> None
      | Some r1 \<Rightarrow>
          (case skip_spaces1 r1 of
             None \<Rightarrow> None
           | Some r2 \<Rightarrow>
               (let ip = takeWhile isdigit r2 in
                if ip = [] then None
                else (case opt_group (CHR ''.'') (dropWhile isdigit r2) of
                        (fpart, r3) \<Rightarrow>
                          (case skip_spaces1 r3 of
                             None \<Rightarrow> None
                           | Some r4 \<Rightarrow>
                               if list_ex (\<lambda>w. starts_with w r4)
                                    [''km'', ''kilometers'', ''miles'', ''meters'', ''m'']
                               then Some (real (int_of_digits ip) +
                                          (case fpart of
                                             None \<Rightarrow> 0
                                           | Some fp \<Rightarrow>
                                               real (int_of_digits fp) / 10 ^ length fp))
                               else None)))))"

text \<open>
  \<^verbatim>\<open>(?:finished in|time of|took me)\s+(\d+)(?::(\d+))?(?::(\d+))?\s*(?:hours?|...)?\<close>,
  anchored: everything after the groups is optional, so the match is decided once the
  first number is read. The result is \<^verbatim>\<open>total_seconds\<close>.
\<close>
definition match_time :: "string \<Rightarrow> nat option" where
  "match_time s =
     (case first_prefix [''finished in'', ''time of'', ''took me''] s of
        None \<Rightarrow> None
      | Some r1 \<Rightarrow>
          (case skip_spaces1 r1 of
             None \<Rightarrow> None
           | Some r2 \<Rightarrow>
               (let g1 = takeWhile isdigit r2 in
                if g1 = [] then None
                else (case opt_group (CHR '':'') (dropWhile isdigit r2) of
                        (g2, r3) \<Rightarrow>
                          (case opt_group (CHR '':'') r3 of
                             (g3, r4) \<Rightarrow>
                               (let hours = int_of_digits g1;
                                    minutes = (case g2 of None \<Rightarrow> 0 | Some d \<Rightarrow> int_of_digits d);
                                    seconds = (case g3 of None \<Rightarrow> 0 | Some d \<Rightarrow> int_of_digits d)
                                in if g2 = None \<and> g3 = None then Some (0 * 3600 + hours * 60 + seconds)
                                   else Some (hours * 3600 + minutes * 60 + seconds)))))))"

text \<open>The dictionary returned, in insertion order.\<close>
definition extract_performance_metrics :: "string \<Rightarrow> (string \<times> real) list" where
  "extract_performance_metrics msg =
     (let ml = lower msg in
      (case re_search match_score ml of None \<Rightarrow> [] | Some n \<Rightarrow> [(''score'', real n)]) @
      (case re_search match_distance ml of None \<Rightarrow> [] | Some d \<Rightarrow> [(''distance'', d)]) @
      (case re_search match_time ml of None \<Rightarrow> [] | Some t \<Rightarrow> [(''time'', real t)]))"

definition confidence_keywords :: "(string \<times> int) list" where
  "confidence_keywords =
     [(''very confident'', 5), (''confident'', 4), (''somewhat confident'', 3),
      (''not very confident'', 2), (''unconfident'', 1), (''no confidence'', 0)]"

definition anxiety_keywords :: "(string \<times> int) list" where
  "anxiety_keywords =
     [(''extremely anxious'', 5), (''very anxious'', 4), (''anxious'', 3),
      (''somewhat anxious'', 2), (''a little anxious'', 1), (''not anxious'', 0),
      (''calm'', 0), (''relaxed'', 0)]"

definition focus_keywords :: "(string \<times> int) list" where
  "focus_keywords =
     [(''very focused'', 5), (''focused'', 4), (''somewhat focused'', 3),
      (''distracted'', 2), (''very distracted'', 1), (''cannot concentrate'', 0)]"

definition motivation_keywords :: "(string \<times> int) list" where
  "motivation_keywords =
     [(''highly motivated'', 5), (''motivated'', 4), (''somewhat motivated'', 3),
      (''not very motivated'', 2), (''unmotivated'', 1), (''completely unmotivated'', 0)]"

text \<open>The loop over one keyword table, left at the first keyword found in the message.\<close>
definition first_level :: "string \<Rightarrow> (string \<times> int) list \<Rightarrow> string \<Rightarrow> (string \<times> int) list" where
  "first_level key table ml =
     (case find (\<lambda>kv. contains (fst kv) ml) table of
        None \<Rightarrow> []
      | Some kv \<Rightarrow> [(key, snd kv)])"

definition extract_mental_state :: "string \<Rightarrow> (string \<times> int) list" where
  "extract_mental_state msg =
     (let ml = lower msg in
      first_level ''confidence'' confidence_keywords ml @
      first_level ''anxiety'' anxiety_keywords ml @
      first_level ''focus'' focus_keywords ml @
      first_level ''motivation'' motivation_keywords ml)"

section \<open>The user memory (\<^verbatim>\<open>coach/memory.py\<close>)\<close>

text \<open>
  Every method that assigns to \<^verbatim>\<open>self\<close> takes the memory and returns it updated. A call
  reads the clock once: all the timestamps it writes are \<open>now\<close>.
\<close>

definition add_insight :: "real \<Rightarrow> string \<Rightarrow> UserMemory \<Rightarrow> UserMemory" where
  "add_insight now text m =
     m\<lparr>profile := (profile m)\<lparr>insights :=
          insights (profile m) @ [\<lparr>i_content = text, i_timestamp = now\<rparr>]\<rparr>\<rparr>"

definition update_progress :: "string \<Rightarrow> real \<Rightarrow> UserMemory \<Rightarrow> UserMemory" where
  "update_progress goal progress_value m =
     m\<lparr>profile := (profile m)\<lparr>progress :=
          (progress (profile m))(goal \<mapsto> min (max progress_value 0) 1)\<rparr>\<rparr>"

definition goal_keywords :: "string list" where
  "goal_keywords = [''goal'', ''want to'', ''achieve'', ''improve'', ''learn'', ''aspire'', ''aim'']"

text \<open>
  The text taken for a phrase found in the message: from the end of its first occurrence
  to the next full stop, or to the end; used for goals and for preferences.
\<close>
definition text_after :: "string \<Rightarrow> string \<Rightarrow> string \<Rightarrow> string" where
  "text_after keyword msg message_lower =
     (let goal_start = nat (py_find message_lower keyword 0) + length keyword;
          goal_end = py_find message_lower ''.'' goal_start
      in strip (slice msg goal_start
                  (if goal_end = -1 then length message_lower else nat goal_end)))"

text \<open>\<^verbatim>\<open>_extract_goals\<close>: the loop ends at the first keyword found in the message.\<close>
definition extract_goals :: "real \<Rightarrow> string \<Rightarrow> string \<Rightarrow> UserMemory \<Rightarrow> UserMemory" where
  "extract_goals now msg message_lower m =
     (case find (\<lambda>keyword. contains keyword message_lower) goal_keywords of
        None \<Rightarrow> m
      | Some keyword \<Rightarrow>
          (let potential_goal = text_after keyword msg message_lower in
           if potential_goal \<noteq> [] \<and> potential_goal \<notin> set (goals (profile m)) then
             add_insight now (''New goal identified: '' @ potential_goal)
               (m\<lparr>profile := (profile m)\<lparr>
                    goals := goals (profile m) @ [potential_goal],
                    progress := (progress (profile m))(potential_goal \<mapsto> 0)\<rparr>\<rparr>)
           else m))"

definition preference_phrases :: "(string \<times> string) list" where
  "preference_phrases =
     [(''i prefer'', ''preference''), (''i like'', ''like''), (''i enjoy'', ''enjoy''),
      (''i don't like'', ''dislike''), (''i hate'', ''dislike''), (''i love'', ''like'')]"

text \<open>The body of the loop of \<^verbatim>\<open>_extract_preferences\<close>, for one phrase and category.\<close>
definition preference_step ::
  "string \<Rightarrow> string \<Rightarrow> UserMemory \<Rightarrow> string \<times> string \<Rightarrow> UserMemory" where
  "preference_step msg message_lower m pc =
     (if contains (fst pc) message_lower then
        (let preference = text_after (fst pc) msg message_lower in
         if preference \<noteq> [] then
           (let prefs = preferences (profile m);
                prefs' = (if map_of prefs (snd pc) = None then AList.update (snd pc) [] prefs
                          else prefs);
                cur = (case map_of prefs' (snd pc) of None \<Rightarrow> [] | Some ps \<Rightarrow> ps)
            in m\<lparr>profile := (profile m)\<lparr>preferences :=
                   (if preference \<notin> set cur
                    then AList.update (snd pc) (cur @ [preference]) prefs'
                    else prefs')\<rparr>\<rparr>)
         else m)
      else m)"

definition extract_preferences :: "string \<Rightarrow> string \<Rightarrow> UserMemory \<Rightarrow> UserMemory" where
  "extract_preferences msg message_lower m =
     foldl (preference_step msg message_lower) m preference_phrases"

definition positive_emotions :: "string list" where
  "positive_emotions =
     [''happy'', ''excited'', ''proud'', ''satisfied'', ''confident'', ''motivated'']"

definition negative_emotions :: "string list" where
  "negative_emotions =
     [''frustrated'', ''disappointed'', ''anxious'', ''stressed'', ''overwhelmed'', ''stuck'']"

text \<open>The body of the loop over \<^verbatim>\<open>found_emotions\<close>; the flag is the sentiment.\<close>
definition emotion_step ::
  "real \<Rightarrow> string \<Rightarrow> string \<Rightarrow> UserMemory \<Rightarrow> string \<times> bool \<Rightarrow> UserMemory" where
  "emotion_step now msg message_lower m es =
     (let emotion_idx = nat (py_find message_lower (fst es) 0);
          start_idx = max 0 (py_rfind message_lower ''.'' emotion_idx + 1);
          end_idx = py_find message_lower ''.'' emotion_idx;
          ctxt = strip (slice msg (nat start_idx)
                          (if end_idx = -1 then length message_lower else nat end_idx))
      in add_insight now
           (if snd es then ''User feels '' @ fst es @ '' about: '' @ ctxt
            else ''User is experiencing '' @ fst es @ '' regarding: '' @ ctxt) m)"

definition extract_emotions_and_insights ::
  "real \<Rightarrow> string \<Rightarrow> string \<Rightarrow> UserMemory \<Rightarrow> UserMemory" where
  "extract_emotions_and_insights now msg message_lower m =
     (let found_emotions =
            map (\<lambda>e. (e, True)) (filter (\<lambda>e. contains e message_lower) positive_emotions) @
            map (\<lambda>e. (e, False)) (filter (\<lambda>e. contains e message_lower) negative_emotions)
      in foldl (emotion_step now msg message_lower) m found_emotions)"

text \<open>\<^verbatim>\<open>_extract_progress_updates\<close>: the body is its docstring only.\<close>
definition extract_progress_updates :: "string \<Rightarrow> string \<Rightarrow> UserMemory \<Rightarrow> UserMemory" where
  "extract_progress_updates msg message_lower m = m"

text \<open>\<^verbatim>\<open>_extract_performance_metrics\<close>\<close>
definition um_extract_performance_metrics ::
  "string \<Rightarrow> string \<Rightarrow> UserMemory \<Rightarrow> UserMemory" where
  "um_extract_performance_metrics msg message_lower m =
     (let metrics = extract_performance_metrics msg in
      m\<lparr>profile := (profile m)\<lparr>performance_metrics :=
           foldl (\<lambda>pm kv. AList.update (fst kv) (snd kv) pm)
             (performance_metrics (profile m)) metrics\<rparr>\<rparr>)"

definition progress_keywords :: "string list" where
  "progress_keywords = [''progress'', ''completed'', ''finished'', ''accomplished'', ''achieved'']"

text \<open>
  \<^verbatim>\<open>_extract_mental_state\<close>: in the source the statements that handle progress follow
  the mental-state update in this method's body. The loop over the goals ends at the
  first goal that passes the test.
\<close>
definition um_extract_mental_state ::
  "real \<Rightarrow> string \<Rightarrow> string \<Rightarrow> UserMemory \<Rightarrow> UserMemory" where
  "um_extract_mental_state now msg message_lower m =
     (let ms = extract_mental_state msg;
          m1 = m\<lparr>profile := (profile m)\<lparr>mental_state :=
                 foldl (\<lambda>st kv. AList.update (fst kv) (snd kv) st)
                   (mental_state (profile m)) ms\<rparr>\<rparr>;
          contains_progress = any_in progress_keywords message_lower
      in if contains_progress \<and> goals (profile m1) \<noteq> [] then
           (case find (\<lambda>goal. list_ex (\<lambda>word. contains word (lower goal)) (split (lower goal))
                               \<and> contains_progress) (goals (profile m1)) of
              None \<Rightarrow> m1
            | Some goal \<Rightarrow>
                (let current_progress =
                       (case progress (profile m1) goal of None \<Rightarrow> 0 | Some p \<Rightarrow> p);
                     new_progress = min (current_progress + 0.2) 1;
                     m2 = update_progress goal new_progress m1;
                     progress_percentage = trunc (new_progress * 100)
                 in add_insight now
                      (''Progress update: '' @ goal @ '' is now at '' @
                       show_int progress_percentage @ ''% completion'') m2))
         else m1)"

text \<open>\<^verbatim>\<open>_update_user_profile\<close>\<close>
definition update_user_profile :: "real \<Rightarrow> string \<Rightarrow> UserMemory \<Rightarrow> UserMemory" where
  "update_user_profile now msg m =
     (let message_lower = lower msg;
          m1 = extract_goals now msg message_lower m;
          m2 = extract_preferences msg message_lower m1;
          m3 = extract_emotions_and_insights now msg message_lower m2;
          m4 = extract_progress_updates msg message_lower m3;
          m5 = um_extract_performance_metrics msg message_lower m4
      in um_extract_mental_state now msg message_lower m5)"

definition store_alert :: "SafetyAlert \<Rightarrow> stored_alert" where
  "store_alert a =
     \<lparr>sa_category = category_value (category a), sa_level = level_value (level a),
      sa_message = message a, sa_timestamp = timestamp a,
      sa_recommended_action = recommended_action a,
      sa_escalation_required = escalation_required a\<rparr>"

text \<open>The body of the loop of \<^verbatim>\<open>_monitor_safety\<close> over the alerts returned.\<close>
definition record_alert :: "real \<Rightarrow> UserMemory \<Rightarrow> SafetyAlert \<Rightarrow> UserMemory" where
  "record_alert now m a =
     add_insight now (''Safety Alert ('' @ level_value (level a) @ ''): '' @ message a)
       (m\<lparr>profile := (profile m)\<lparr>safety_alerts :=
            safety_alerts (profile m) @ [store_alert a]\<rparr>\<rparr>)"

text \<open>\<^verbatim>\<open>_monitor_safety\<close>\<close>
definition monitor_safety :: "real \<Rightarrow> string \<Rightarrow> UserMemory \<Rightarrow> UserMemory" where
  "monitor_safety now msg m =
     (case monitor_message now msg (um_user_id m) (profile m) (safety_monitor m) of
        (new_alerts, mon') \<Rightarrow>
          (let m1 = foldl (record_alert now) (m\<lparr>safety_monitor := mon'\<rparr>) new_alerts;
               m2 = m1\<lparr>profile := (profile m1)\<lparr>safety_recommendations :=
                      get_safety_recommendations mon' (um_user_id m)\<rparr>\<rparr>
           in if get_escalation_alerts mon' \<noteq> [] then
                add_insight now
                  ''URGENT: Safety escalation required - immediate attention needed'' m2
              else m2))"

text \<open>\<^verbatim>\<open>xs[-n:]\<close> for any integer \<open>n\<close>: \<^verbatim>\<open>xs[-0:]\<close> is \<^verbatim>\<open>xs[0:]\<close>.\<close>
definition last_slice :: "'a list \<Rightarrow> int \<Rightarrow> 'a list" where
  "last_slice xs n = (if n > 0 then drop (length xs - nat n) xs else drop (nat (- n)) xs)"

text \<open>
  \<^verbatim>\<open>add_message\<close>; \<open>max_entries\<close> is \<^verbatim>\<open>config.MEMORY_MAX_ENTRIES\<close>, the integer read from
  the environment (10 when the variable is not set).
\<close>
definition add_message :: "int \<Rightarrow> real \<Rightarrow> string \<Rightarrow> string \<Rightarrow> UserMemory \<Rightarrow> UserMemory" where
  "add_message max_entries now role content m =
     (let h = conversation_history m @
                [\<lparr>e_role = role, e_content = content, e_timestamp = now\<rparr>];
          m1 = m\<lparr>conversation_history :=
                 (if int (length h) > max_entries then last_slice h max_entries else h)\<rparr>
      in if role = ''user'' then monitor_safety now content (update_user_profile now content m1)
         else m1)"

definition get_conversation_history :: "UserMemory \<Rightarrow> conversation_entry list" where
  "get_conversation_history m = conversation_history m"

record safety_status =
  total_alerts :: nat
  recent_alerts :: nat
  critical_alerts :: nat
  recommendations :: "string list"
  st_escalation_required :: bool

text \<open>\<^verbatim>\<open>get_safety_status\<close>: it assigns nothing, and returns the status only.\<close>
definition get_safety_status :: "real \<Rightarrow> UserMemory \<Rightarrow> safety_status" where
  "get_safety_status now m =
     (let recent = filter (\<lambda>a. now - sa_timestamp a < 3600) (safety_alerts (profile m));
          critical = filter (\<lambda>a. sa_level a \<in> set [''critical'', ''emergency'']) recent
      in \<lparr>total_alerts = length (safety_alerts (profile m)),
          recent_alerts = length recent,
          critical_alerts = length critical,
          recommendations = safety_recommendations (profile m),
          st_escalation_required = (length critical > 0)\<rparr>)"

section \<open>Runs of a user memory\<close>

text \<open>
  The public calls that change a \<^verbatim>\<open>UserMemory\<close>, and the memory reached from a new one by
  a sequence of them under a given \<^verbatim>\<open>MEMORY_MAX_ENTRIES\<close>.
\<close>
datatype call =
    AddMessage real string string
  | UpdateProgress string real
  | AddInsight real string

fun apply_call :: "int \<Rightarrow> UserMemory \<Rightarrow> call \<Rightarrow> UserMemory" where
  "apply_call max_entries m (AddMessage now role content) =
     add_message max_entries now role content m"
| "apply_call max_entries m (UpdateProgress goal v) = update_progress goal v m"
| "apply_call max_entries m (AddInsight now text) = add_insight now text m"

definition run :: "int \<Rightarrow> string \<Rightarrow> call list \<Rightarrow> UserMemory" where
  "run max_entries uid calls = foldl (apply_call max_entries) (new_UserMemory uid) calls"

text \<open>The history entries appended by the calls of a run, oldest first.\<close>
fun appended :: "call list \<Rightarrow> conversation_entry list" where
  "appended [] = []"
| "appended (AddMessage now role content # cs) =
     \<lparr>e_role = role, e_content = content, e_timestamp = now\<rparr> # appended cs"
| "appended (c # cs) = appended cs"


text \<open>The test that the progress loop applies to a goal, without the keyword flag.\<close>
definition mentions_itself :: "string \<Rightarrow> bool" where
  "mentions_itself goal = list_ex (\<lambda>word. contains word (lower goal)) (split (lower goal))"

text \<open>What a run maintains about goals and progress.\<close>
definition goals_inv :: "UserMemory \<Rightarrow> bool" where
  "goals_inv m =
     (distinct (goals (profile m)) \<and>
      list_all mentions_itself (goals (profile m)) \<and>
      list_all (\<lambda>g. progress (profile m) g \<noteq> None) (goals (profile m)))"

definition progress_inv :: "UserMemory \<Rightarrow> bool" where
  "progress_inv m = (\<forall>g v. progress (profile m) g = Some v \<longrightarrow> 0 \<le> v \<and> v \<le> 1)"

section \<open>Burnout versus laziness\<close>

text \<open>
  Claim C5. For every message, the burnout-vs-laziness detector returns exactly one alert,
  a BURNOUT_LAZINESS WARNING with escalation required, when the burnout indicators found in
  the message are strictly more than the laziness indicators found (and more than zero);
  exactly one alert, a BURNOUT_LAZINESS INFO without escalation, when the laziness
  indicators found are strictly more than the burnout indicators found (and more than
  zero); and no alert when the two counts are equal, zero included.
\<close>
theorem burnout_vs_laziness_alerts:
  "(count_in burnout_indicators msg > count_in laziness_indicators msg \<and>
    count_in burnout_indicators msg > 0 \<longrightarrow>
      map (\<lambda>a. (category a, level a, escalation_required a))
        (detect_burnout_vs_laziness now msg uid prof) = [(BURNOUT_LAZINESS, WARNING, True)]) \<and>
   (count_in laziness_indicators msg > count_in burnout_indicators msg \<and>
    count_in laziness_indicators msg > 0 \<longrightarrow>
      map (\<lambda>a. (category a, level a, escalation_required a))
        (detect_burnout_vs_laziness now msg uid prof) = [(BURNOUT_LAZINESS, INFO, False)]) \<and>
   (count_in burnout_indicators msg = count_in laziness_indicators msg \<longrightarrow>
      detect_burnout_vs_laziness now msg uid prof = [])"
  by (simp add: detect_burnout_vs_laziness_def Let_def)

theorem burnout_vs_laziness_alerts_witness:
  "(count_in burnout_indicators ''i am exhausted'' >
      count_in laziness_indicators ''i am exhausted'' \<and>
    count_in burnout_indicators ''i am exhausted'' > 0) \<and>
   map (\<lambda>a. (category a, level a, escalation_required a))
     (detect_burnout_vs_laziness 0 ''i am exhausted'' ''u'' (profile (new_UserMemory ''u'')))
     = [(BURNOUT_LAZINESS, WARNING, True)] \<and>
   (count_in laziness_indicators ''i am too lazy'' >
      count_in burnout_indicators ''i am too lazy'' \<and>
    count_in laziness_indicators ''i am too lazy'' > 0) \<and>
   map (\<lambda>a. (category a, level a, escalation_required a))
     (detect_burnout_vs_laziness 0 ''i am too lazy'' ''u'' (profile (new_UserMemory ''u'')))
     = [(BURNOUT_LAZINESS, INFO, False)] \<and>
   count_in burnout_indicators ''exhausted but too lazy'' =
     count_in laziness_indicators ''exhausted but too lazy'' \<and>
   detect_burnout_vs_laziness 0 ''exhausted but too lazy'' ''u''
     (profile (new_UserMemory ''u'')) = []"
proof -
  have h1: "count_in burnout_indicators ''i am exhausted'' >
              count_in laziness_indicators ''i am exhausted'' \<and>
            count_in burnout_indicators ''i am exhausted'' > 0"
    by code_simp
  have h2: "count_in laziness_indicators ''i am too lazy'' >
              count_in burnout_indicators ''i am too lazy'' \<and>
            count_in laziness_indicators ''i am too lazy'' > 0"
    by code_simp
  have h3: "count_in burnout_indicators ''exhausted but too lazy'' =
              count_in laziness_indicators ''exhausted but too lazy''"
    by code_simp
  show ?thesis
    using h1 h2 h3
      burnout_vs_laziness_alerts
        [of "''i am exhausted''" 0 "''u''" "profile (new_UserMemory ''u'')"]
      burnout_vs_laziness_alerts
        [of "''i am too lazy''" 0 "''u''" "profile (new_UserMemory ''u'')"]
      burnout_vs_laziness_alerts
        [of "''exhausted but too lazy''" 0 "''u''" "profile (new_UserMemory ''u'')"]
    by blast
qed

section \<open>The safety status\<close>

text \<open>
  Claim C8. When the profile stores no safety alert, \<^verbatim>\<open>get_safety_status\<close> returns
  total_alerts = 0, recent_alerts = 0, critical_alerts = 0 and escalation_required = false.
  In every state, critical_alerts is the number of stored alerts that are both younger than
  3600 seconds and at level critical or emergency, and escalation_required is true exactly
  when that number is positive. The function returns the status only; the memory is an
  argument it reads.
\<close>
theorem get_safety_status_counts:
  "(safety_alerts (profile m) = [] \<longrightarrow>
      total_alerts (get_safety_status now m) = 0 \<and>
      recent_alerts (get_safety_status now m) = 0 \<and>
      critical_alerts (get_safety_status now m) = 0 \<and>
      \<not> st_escalation_required (get_safety_status now m)) \<and>
   critical_alerts (get_safety_status now m) =
     length (filter (\<lambda>a. now - sa_timestamp a < 3600 \<and>
                          (sa_level a = ''critical'' \<or> sa_level a = ''emergency''))
               (safety_alerts (profile m))) \<and>
   (st_escalation_required (get_safety_status now m) \<longleftrightarrow>
      critical_alerts (get_safety_status now m) > 0)"
  by (simp add: get_safety_status_def Let_def conj_commute)

theorem get_safety_status_counts_witness:
  "safety_alerts (profile (new_UserMemory ''u'')) = [] \<and>
   total_alerts (get_safety_status 0 (new_UserMemory ''u'')) = 0 \<and>
   recent_alerts (get_safety_status 0 (new_UserMemory ''u'')) = 0 \<and>
   critical_alerts (get_safety_status 0 (new_UserMemory ''u'')) = 0 \<and>
   \<not> st_escalation_required (get_safety_status 0 (new_UserMemory ''u''))"
proof -
  have h: "safety_alerts (profile (new_UserMemory ''u'')) = []"
    by (simp add: new_UserMemory_def)
  show ?thesis
    using h get_safety_status_counts [of "new_UserMemory ''u''" 0] by blast
qed

section \<open>What each detector returns\<close>














lemma low_engagement_alerts [simp]:
  "alerts (snd (detect_low_engagement now msg uid prof mon)) = alerts mon"
  by (simp add: detect_low_engagement_def Let_def)


lemma monitor_message_snd:
  "snd (monitor_message now msg uid prof mon) =
     (snd (detect_low_engagement now (lower msg) uid prof mon))
       \<lparr>alerts := alerts mon @ fst (monitor_message now msg uid prof mon)\<rparr>"
  by (simp add: monitor_message_def Let_def split: prod.splits)
     (metis low_engagement_alerts snd_conv)

lemma filter_other_category:
  assumes "list_all (\<lambda>a. category a = c) xs" and "\<And>a. P a \<Longrightarrow> category a \<noteq> c"
  shows "filter P xs = []"
  using assms by (auto simp: filter_empty_conv list_all_iff)

section \<open>False reporting\<close>









section \<open>What the extractors leave unchanged\<close>

lemma add_insight_frame [simp]:
  "um_user_id (add_insight now text m) = um_user_id m"
  "safety_monitor (add_insight now text m) = safety_monitor m"
  "conversation_history (add_insight now text m) = conversation_history m"
  "safety_alerts (profile (add_insight now text m)) = safety_alerts (profile m)"
  "goals (profile (add_insight now text m)) = goals (profile m)"
  "progress (profile (add_insight now text m)) = progress (profile m)"
  "insights (profile (add_insight now text m)) =
     insights (profile m) @ [\<lparr>i_content = text, i_timestamp = now\<rparr>]"
  by (simp_all add: add_insight_def)

lemma update_progress_frame [simp]:
  "um_user_id (update_progress g v m) = um_user_id m"
  "safety_monitor (update_progress g v m) = safety_monitor m"
  "conversation_history (update_progress g v m) = conversation_history m"
  "safety_alerts (profile (update_progress g v m)) = safety_alerts (profile m)"
  "goals (profile (update_progress g v m)) = goals (profile m)"
  "insights (profile (update_progress g v m)) = insights (profile m)"
  "progress (profile (update_progress g v m)) = (progress (profile m))(g \<mapsto> min (max v 0) 1)"
  by (simp_all add: update_progress_def)

lemma extract_goals_frame [simp]:
  "um_user_id (extract_goals now msg ml m) = um_user_id m"
  "safety_monitor (extract_goals now msg ml m) = safety_monitor m"
  "conversation_history (extract_goals now msg ml m) = conversation_history m"
  "safety_alerts (profile (extract_goals now msg ml m)) = safety_alerts (profile m)"
  by (simp_all add: extract_goals_def Let_def split: option.splits)

lemma preference_step_frame [simp]:
  "um_user_id (preference_step msg ml m pc) = um_user_id m"
  "safety_monitor (preference_step msg ml m pc) = safety_monitor m"
  "conversation_history (preference_step msg ml m pc) = conversation_history m"
  "safety_alerts (profile (preference_step msg ml m pc)) = safety_alerts (profile m)"
  "goals (profile (preference_step msg ml m pc)) = goals (profile m)"
  "progress (profile (preference_step msg ml m pc)) = progress (profile m)"
  "insights (profile (preference_step msg ml m pc)) = insights (profile m)"
  by (simp_all add: preference_step_def Let_def)

lemma foldl_frame:
  assumes "\<And>m y. sel (f m y) = sel m"
  shows "sel (foldl f m ys) = sel m"
  by (induction ys arbitrary: m) (simp_all add: assms)

lemma extract_preferences_frame [simp]:
  "um_user_id (extract_preferences msg ml m) = um_user_id m"
  "safety_monitor (extract_preferences msg ml m) = safety_monitor m"
  "conversation_history (extract_preferences msg ml m) = conversation_history m"
  "safety_alerts (profile (extract_preferences msg ml m)) = safety_alerts (profile m)"
  "goals (profile (extract_preferences msg ml m)) = goals (profile m)"
  "progress (profile (extract_preferences msg ml m)) = progress (profile m)"
  "insights (profile (extract_preferences msg ml m)) = insights (profile m)"
  unfolding extract_preferences_def
  by (rule foldl_frame, simp)+

lemma emotion_step_frame [simp]:
  "um_user_id (emotion_step now msg ml m es) = um_user_id m"
  "safety_monitor (emotion_step now msg ml m es) = safety_monitor m"
  "conversation_history (emotion_step now msg ml m es) = conversation_history m"
  "safety_alerts (profile (emotion_step now msg ml m es)) = safety_alerts (profile m)"
  "goals (profile (emotion_step now msg ml m es)) = goals (profile m)"
  "progress (profile (emotion_step now msg ml m es)) = progress (profile m)"
  by (simp_all add: emotion_step_def Let_def)

lemma extract_emotions_frame [simp]:
  "um_user_id (extract_emotions_and_insights now msg ml m) = um_user_id m"
  "safety_monitor (extract_emotions_and_insights now msg ml m) = safety_monitor m"
  "conversation_history (extract_emotions_and_insights now msg ml m) = conversation_history m"
  "safety_alerts (profile (extract_emotions_and_insights now msg ml m)) = safety_alerts (profile m)"
  "goals (profile (extract_emotions_and_insights now msg ml m)) = goals (profile m)"
  "progress (profile (extract_emotions_and_insights now msg ml m)) = progress (profile m)"
  unfolding extract_emotions_and_insights_def Let_def
  by (rule foldl_frame, simp)+

lemma extract_metrics_frame [simp]:
  "um_user_id (um_extract_performance_metrics msg ml m) = um_user_id m"
  "safety_monitor (um_extract_performance_metrics msg ml m) = safety_monitor m"
  "conversation_history (um_extract_performance_metrics msg ml m) = conversation_history m"
  "safety_alerts (profile (um_extract_performance_metrics msg ml m)) = safety_alerts (profile m)"
  "goals (profile (um_extract_performance_metrics msg ml m)) = goals (profile m)"
  "progress (profile (um_extract_performance_metrics msg ml m)) = progress (profile m)"
  "insights (profile (um_extract_performance_metrics msg ml m)) = insights (profile m)"
  by (simp_all add: um_extract_performance_metrics_def Let_def)

lemma extract_mental_state_frame [simp]:
  "um_user_id (um_extract_mental_state now msg ml m) = um_user_id m"
  "safety_monitor (um_extract_mental_state now msg ml m) = safety_monitor m"
  "conversation_history (um_extract_mental_state now msg ml m) = conversation_history m"
  "safety_alerts (profile (um_extract_mental_state now msg ml m)) = safety_alerts (profile m)"
  "goals (profile (um_extract_mental_state now msg ml m)) = goals (profile m)"
  by (simp_all add: um_extract_mental_state_def Let_def split: option.splits)

lemma update_user_profile_frame [simp]:
  "um_user_id (update_user_profile now msg m) = um_user_id m"
  "safety_monitor (update_user_profile now msg m) = safety_monitor m"
  "conversation_history (update_user_profile now msg m) = conversation_history m"
  "safety_alerts (profile (update_user_profile now msg m)) = safety_alerts (profile m)"
  by (simp_all add: update_user_profile_def Let_def extract_progress_updates_def)

lemma record_alert_frame [simp]:
  "um_user_id (record_alert now m a) = um_user_id m"
  "safety_monitor (record_alert now m a) = safety_monitor m"
  "conversation_history (record_alert now m a) = conversation_history m"
  "goals (profile (record_alert now m a)) = goals (profile m)"
  "progress (profile (record_alert now m a)) = progress (profile m)"
  by (simp_all add: record_alert_def)






section \<open>Mental health red flags\<close>








section \<open>The effects of monitoring a message\<close>

lemma low_engagement_other_fields:
  "user_sessions (snd (detect_low_engagement now msg uid prof mon)) = user_sessions mon"
  "performance_baselines (snd (detect_low_engagement now msg uid prof mon)) =
     performance_baselines mon"
  "mental_health_indicators (snd (detect_low_engagement now msg uid prof mon)) =
     mental_health_indicators mon"
  "u \<noteq> uid \<Longrightarrow>
   engagement_metrics (snd (detect_low_engagement now msg uid prof mon)) u =
     engagement_metrics mon u"
  by (simp_all add: detect_low_engagement_def Let_def)

lemma false_reporting_step_reads_metrics_only:
  assumes "performance_metrics prof' = performance_metrics prof"
  shows "false_reporting_step now msg uid prof' = false_reporting_step now msg uid prof"
  unfolding false_reporting_step_def assms by (rule refl)

lemma detectors_read_metrics_only:
  assumes "performance_metrics prof' = performance_metrics prof"
  shows "detect_overtraining now msg uid prof' = detect_overtraining now msg uid prof"
    and "detect_data_inconsistency now msg uid prof' = detect_data_inconsistency now msg uid prof"
    and "detect_low_engagement now msg uid prof' mon = detect_low_engagement now msg uid prof mon"
    and "detect_resistance now msg uid prof' = detect_resistance now msg uid prof"
    and "detect_creativity_misuse now msg uid prof' = detect_creativity_misuse now msg uid prof"
    and "detect_mental_health_risks now msg uid prof' = detect_mental_health_risks now msg uid prof"
    and "detect_performance_drop now msg uid prof' = detect_performance_drop now msg uid prof"
    and "detect_team_conflict now msg uid prof' = detect_team_conflict now msg uid prof"
    and "detect_reward_misuse now msg uid prof' = detect_reward_misuse now msg uid prof"
    and "detect_language_barriers now msg uid prof' = detect_language_barriers now msg uid prof"
    and "detect_false_reporting now msg uid prof' = detect_false_reporting now msg uid prof"
    and "detect_burnout_vs_laziness now msg uid prof' = detect_burnout_vs_laziness now msg uid prof"
  unfolding detect_overtraining_def detect_data_inconsistency_def
    detect_low_engagement_def detect_resistance_def detect_creativity_misuse_def
    detect_mental_health_risks_def detect_performance_drop_def detect_team_conflict_def
    detect_reward_misuse_def detect_language_barriers_def detect_false_reporting_def
    false_reporting_step_reads_metrics_only [OF assms] detect_burnout_vs_laziness_def assms
  by (rule refl)+

lemma monitor_message_reads_metrics_only:
  assumes "performance_metrics prof' = performance_metrics prof"
  shows "monitor_message now msg uid prof' mon = monitor_message now msg uid prof mon"
  unfolding monitor_message_def detectors_read_metrics_only [OF assms] by (rule refl)

text \<open>
  Claim C9. For every message, user id, profile and monitor, \<^verbatim>\<open>monitor_message\<close> has the
  profile as an argument that it only reads (the model returns no profile, as no detector
  assigns to it), and of the profile only the performance_metrics mapping matters to the
  result. In the monitor it changes the alert log, to which exactly the returned list is
  appended, and the engagement metrics of the given user; every other field and every other
  user's engagement metrics stay as they were.
\<close>
theorem monitor_message_effects:
  "alerts (snd (monitor_message now msg uid prof mon)) =
     alerts mon @ fst (monitor_message now msg uid prof mon) \<and>
   user_sessions (snd (monitor_message now msg uid prof mon)) = user_sessions mon \<and>
   performance_baselines (snd (monitor_message now msg uid prof mon)) =
     performance_baselines mon \<and>
   mental_health_indicators (snd (monitor_message now msg uid prof mon)) =
     mental_health_indicators mon \<and>
   (\<forall>u. u \<noteq> uid \<longrightarrow>
      engagement_metrics (snd (monitor_message now msg uid prof mon)) u =
        engagement_metrics mon u) \<and>
   (\<forall>prof'. performance_metrics prof' = performance_metrics prof \<longrightarrow>
      monitor_message now msg uid prof' mon = monitor_message now msg uid prof mon)"
proof -
  have c1: "alerts (snd (monitor_message now msg uid prof mon)) =
              alerts mon @ fst (monitor_message now msg uid prof mon)"
    by (simp add: monitor_message_snd)
  have c2: "user_sessions (snd (monitor_message now msg uid prof mon)) = user_sessions mon"
    by (simp add: monitor_message_snd low_engagement_other_fields)
  have c3: "performance_baselines (snd (monitor_message now msg uid prof mon)) =
              performance_baselines mon"
    by (simp add: monitor_message_snd low_engagement_other_fields)
  have c4: "mental_health_indicators (snd (monitor_message now msg uid prof mon)) =
              mental_health_indicators mon"
    by (simp add: monitor_message_snd low_engagement_other_fields)
  have c5: "\<forall>u. u \<noteq> uid \<longrightarrow>
              engagement_metrics (snd (monitor_message now msg uid prof mon)) u =
                engagement_metrics mon u"
    by (simp add: monitor_message_snd low_engagement_other_fields)
  have c6: "\<forall>prof'. performance_metrics prof' = performance_metrics prof \<longrightarrow>
              monitor_message now msg uid prof' mon = monitor_message now msg uid prof mon"
    by (intro allI impI) (rule monitor_message_reads_metrics_only)
  show ?thesis
    by (intro conjI c1 c2 c3 c4 c5 c6)
qed

theorem monitor_message_effects_witness:
  "''v'' \<noteq> ''u'' \<and>
   performance_metrics ((profile (new_UserMemory ''u''))\<lparr>goals := [''run'']\<rparr>) =
     performance_metrics (profile (new_UserMemory ''u'')) \<and>
   engagement_metrics
     (snd (monitor_message 0 ''hi'' ''u'' (profile (new_UserMemory ''u'')) new_SafetyMonitor))
     ''v'' = engagement_metrics new_SafetyMonitor ''v'' \<and>
   monitor_message 0 ''hi'' ''u'' ((profile (new_UserMemory ''u''))\<lparr>goals := [''run'']\<rparr>)
     new_SafetyMonitor =
   monitor_message 0 ''hi'' ''u'' (profile (new_UserMemory ''u'')) new_SafetyMonitor \<and>
   alerts (snd (monitor_message 0 ''hi'' ''u'' (profile (new_UserMemory ''u''))
                  new_SafetyMonitor)) =
     alerts new_SafetyMonitor @
     fst (monitor_message 0 ''hi'' ''u'' (profile (new_UserMemory ''u'')) new_SafetyMonitor)"
proof -
  have h1: "''v'' \<noteq> ''u''" by simp
  have h2: "performance_metrics ((profile (new_UserMemory ''u''))\<lparr>goals := [''run'']\<rparr>) =
              performance_metrics (profile (new_UserMemory ''u''))"
    by simp
  note T = monitor_message_effects [of 0 "''hi''" "''u''" "profile (new_UserMemory ''u'')"
      new_SafetyMonitor]
  note a = T [THEN conjunct1]
  note e = T [THEN conjunct2, THEN conjunct2, THEN conjunct2, THEN conjunct2, THEN conjunct1,
      THEN spec, THEN mp, OF h1]
  note p = T [THEN conjunct2, THEN conjunct2, THEN conjunct2, THEN conjunct2, THEN conjunct2,
      THEN spec, THEN mp, OF h2]
  show ?thesis
    by (intro conjI h1 h2 a e p)
qed

section \<open>The conversation history\<close>

lemma monitor_safety_frame [simp]:
  "um_user_id (monitor_safety now msg m) = um_user_id m"
  "conversation_history (monitor_safety now msg m) = conversation_history m"
  "goals (profile (monitor_safety now msg m)) = goals (profile m)"
  "progress (profile (monitor_safety now msg m)) = progress (profile m)"
proof -
  obtain als mon' where r:
    "monitor_message now msg (um_user_id m) (profile m) (safety_monitor m) = (als, mon')"
    by (cases "monitor_message now msg (um_user_id m) (profile m) (safety_monitor m)")
  have f1: "\<And>m0. um_user_id (foldl (record_alert now) m0 als) = um_user_id m0"
    by (rule foldl_frame) simp
  have f2: "\<And>m0. conversation_history (foldl (record_alert now) m0 als) = conversation_history m0"
    by (rule foldl_frame) simp
  have f3: "\<And>m0. goals (profile (foldl (record_alert now) m0 als)) = goals (profile m0)"
    by (rule foldl_frame) simp
  have f4: "\<And>m0. progress (profile (foldl (record_alert now) m0 als)) = progress (profile m0)"
    by (rule foldl_frame) simp
  show "um_user_id (monitor_safety now msg m) = um_user_id m"
    "conversation_history (monitor_safety now msg m) = conversation_history m"
    "goals (profile (monitor_safety now msg m)) = goals (profile m)"
    "progress (profile (monitor_safety now msg m)) = progress (profile m)"
    by (simp_all add: monitor_safety_def r Let_def f1 f2 f3 f4)
qed

lemma add_message_history:
  "conversation_history (add_message cap now role content m) =
     (let h = conversation_history m @
                [\<lparr>e_role = role, e_content = content, e_timestamp = now\<rparr>]
      in if int (length h) > cap then last_slice h cap else h)"
  by (simp add: add_message_def Let_def)

lemma run_snoc: "run cap uid (calls @ [c]) = apply_call cap (run cap uid calls) c"
  by (simp add: run_def)

lemma appended_snoc:
  "appended (calls @ [c]) =
     appended calls @
     (case c of AddMessage now role content \<Rightarrow>
                  [\<lparr>e_role = role, e_content = content, e_timestamp = now\<rparr>]
              | _ \<Rightarrow> [])"
  by (induction calls rule: appended.induct) (simp_all split: call.splits)

lemma history_step:
  assumes "1 \<le> k" and "hist = drop (length A - k) A"
  shows "(let h = hist @ [e] in if int (length h) > int k then last_slice h (int k) else h) =
           drop (length (A @ [e]) - k) (A @ [e])"
proof (cases "k \<le> length A")
  case True
  then have "Suc (length A - k) = Suc (length A) - k" by simp
  with True assms show ?thesis
    by (simp add: Let_def last_slice_def)
next
  case False
  with assms show ?thesis
    by (simp add: Let_def last_slice_def)
qed

lemma history_is_last_entries:
  assumes "1 \<le> cap"
  shows "conversation_history (run cap uid calls) =
           drop (length (appended calls) - nat cap) (appended calls)"
proof (induction calls rule: rev_induct)
  case Nil
  show ?case by (simp add: run_def new_UserMemory_def)
next
  case (snoc c calls)
  from assms have "cap = int (nat cap)" "1 \<le> nat cap" by simp_all
  then obtain k where k: "cap = int k" "1 \<le> k" by blast
  show ?case
  proof (cases c)
    case (AddMessage now role content)
    then show ?thesis
      using snoc k history_step [of k "conversation_history (run cap uid calls)" "appended calls"
          "\<lparr>e_role = role, e_content = content, e_timestamp = now\<rparr>"]
      by (simp add: run_snoc appended_snoc add_message_history)
  next
    case (UpdateProgress g v)
    then show ?thesis using snoc by (simp add: run_snoc appended_snoc)
  next
    case (AddInsight t0 s0)
    then show ?thesis using snoc by (simp add: run_snoc appended_snoc)
  qed
qed

lemma history_bounded:
  assumes "1 \<le> cap"
  shows "int (length (conversation_history (run cap uid calls))) \<le> cap"
  using assms by (simp add: history_is_last_entries)

text \<open>
  Claim C3 says that for every configured cap the history never holds more entries than
  the cap. For every cap of at least 1 this holds, and the history is exactly the last cap
  entries appended, in their order (\<open>history_is_last_entries\<close>, \<open>history_bounded\<close>). With the
  cap configured as 0 it fails: the slice \<^verbatim>\<open>[-0:]\<close> keeps the whole list, so after two
  messages the history holds both.
\<close>
theorem history_unbounded_at_cap_zero:
  "length (get_conversation_history
             (run 0 ''u'' [AddMessage 1 ''coach'' ''hello'', AddMessage 2 ''coach'' ''again''])) = 2"
  by code_simp

section \<open>Extracted goals pass the test of the progress loop\<close>

lemma starts_with_append: "starts_with w (w @ post)"
  by (induction w) simp_all

lemma contains_here: "contains w (w @ post)"
proof (cases "w @ post")
  case Nil
  then show ?thesis by simp
next
  case (Cons c cs)
  have "starts_with w (w @ post)" by (rule starts_with_append)
  with Cons show ?thesis by simp
qed

lemma contains_middle: "contains w (pre @ w @ post)"
  by (induction pre) (simp_all add: contains_here)

lemma split_acc_sub:
  "w \<in> set (split_acc a s) \<Longrightarrow> \<exists>pre post. a @ s = pre @ w @ post"
proof (induction s arbitrary: a)
  case Nil
  then show ?case
    by (cases "a = []") (auto intro: exI [of _ "[]"])
next
  case (Cons c cs)
  show ?case
  proof (cases "isspace c")
    case False
    with Cons.prems have "w \<in> set (split_acc (a @ [c]) cs)" by simp
    from Cons.IH [OF this] show ?thesis by simp
  next
    case True
    show ?thesis
    proof (cases "w \<in> set (split_acc [] cs)")
      case True
      from Cons.IH [OF this] obtain pre post where "cs = pre @ w @ post" by auto
      then have "a @ c # cs = (a @ c # pre) @ w @ post" by simp
      then show ?thesis by blast
    next
      case False
      with Cons.prems \<open>isspace c\<close> have "w = a"
        by (cases "a = []") simp_all
      then have "a @ c # cs = [] @ w @ (c # cs)" by simp
      then show ?thesis by blast
    qed
  qed
qed

lemma split_contains: "w \<in> set (split s) \<Longrightarrow> contains w s"
  using split_acc_sub [of w "[]" s] contains_middle by (auto simp: split_def)

lemma split_acc_nonempty:
  "split_acc a s \<noteq> [] \<longleftrightarrow> a \<noteq> [] \<or> (\<exists>c \<in> set s. \<not> isspace c)"
  by (induction s arbitrary: a) auto

lemma strip_has_nonspace: "strip s \<noteq> [] \<Longrightarrow> \<exists>c \<in> set (strip s). \<not> isspace c"
proof -
  assume ne: "strip s \<noteq> []"
  let ?r = "dropWhile isspace (rev (dropWhile isspace s))"
  from ne have "?r \<noteq> []" by (simp add: strip_def)
  then have "\<not> isspace (hd ?r)" by (rule hd_dropWhile)
  moreover from \<open>?r \<noteq> []\<close> have "hd ?r \<in> set (strip s)" by (simp add: strip_def)
  ultimately show ?thesis by blast
qed

lemma lowercase_not_space:
  "l \<in> set ''abcdefghijklmnopqrstuvwxyz'' \<Longrightarrow> \<not> isspace l"
  by (auto simp: isspace_def)

lemma lower_char_not_space: "\<not> isspace c \<Longrightarrow> \<not> isspace (lower_char c)"
proof (cases "map_of (zip ''ABCDEFGHIJKLMNOPQRSTUVWXYZ'' ''abcdefghijklmnopqrstuvwxyz'') c")
  case None
  assume "\<not> isspace c"
  with None show ?thesis by (simp add: lower_char_def)
next
  case (Some l)
  then have "l \<in> set ''abcdefghijklmnopqrstuvwxyz''"
    by (meson map_of_SomeD set_zip_rightD)
  with Some show ?thesis
    using lowercase_not_space by (simp add: lower_char_def)
qed

lemma nonblank_mentions_itself:
  assumes "\<exists>c \<in> set g. \<not> isspace c"
  shows "mentions_itself g"
proof -
  from assms have "\<exists>c \<in> set (lower g). \<not> isspace c"
    using lower_char_not_space by (auto simp: lower_def)
  then have "split (lower g) \<noteq> []"
    by (simp add: split_def split_acc_nonempty)
  then obtain w where "w \<in> set (split (lower g))"
    by (cases "split (lower g)") auto
  then show ?thesis
    using split_contains by (auto simp: mentions_itself_def list_ex_iff)
qed

lemma text_after_mentions_itself:
  "text_after k msg ml \<noteq> [] \<Longrightarrow> mentions_itself (text_after k msg ml)"
  unfolding text_after_def Let_def
  by (rule nonblank_mentions_itself) (rule strip_has_nonspace)

section \<open>What a run maintains\<close>

lemma goals_inv_cong:
  "goals (profile m') = goals (profile m) \<Longrightarrow> progress (profile m') = progress (profile m) \<Longrightarrow>
   goals_inv m' = goals_inv m"
  by (simp add: goals_inv_def)

lemma progress_inv_cong:
  "progress (profile m') = progress (profile m) \<Longrightarrow> progress_inv m' = progress_inv m"
  by (simp add: progress_inv_def)

lemma extract_goals_goals_inv:
  assumes "goals_inv m"
  shows "goals_inv (extract_goals now msg ml m)"
proof (cases "find (\<lambda>keyword. contains keyword ml) goal_keywords")
  case None
  with assms show ?thesis by (simp add: extract_goals_def)
next
  case (Some k)
  show ?thesis
  proof (cases "text_after k msg ml \<noteq> [] \<and> text_after k msg ml \<notin> set (goals (profile m))")
    case False
    with Some assms show ?thesis by (auto simp: extract_goals_def Let_def)
  next
    case True
    then have "mentions_itself (text_after k msg ml)"
      using text_after_mentions_itself by blast
    with True Some assms show ?thesis
      by (auto simp: extract_goals_def Let_def goals_inv_def list_all_iff)
  qed
qed

lemma extract_goals_progress_inv:
  assumes "progress_inv m"
  shows "progress_inv (extract_goals now msg ml m)"
  using assms
  by (simp add: extract_goals_def Let_def progress_inv_def split: option.splits)

lemma update_progress_progress_inv:
  assumes "progress_inv m"
  shows "progress_inv (update_progress g v m)"
  using assms by (simp add: progress_inv_def)

lemma update_progress_goals_inv:
  assumes "goals_inv m"
  shows "goals_inv (update_progress g v m)"
  using assms by (simp add: goals_inv_def list_all_iff)

lemma mental_state_progress_inv:
  assumes "progress_inv m"
  shows "progress_inv (um_extract_mental_state now msg ml m)"
  using assms
  by (simp add: um_extract_mental_state_def Let_def progress_inv_def split: option.splits)

lemma mental_state_goals_inv:
  assumes "goals_inv m"
  shows "goals_inv (um_extract_mental_state now msg ml m)"
  using assms
  by (simp add: um_extract_mental_state_def Let_def goals_inv_def list_all_iff
      split: option.splits)

lemma update_user_profile_inv:
  assumes "goals_inv m" and "progress_inv m"
  shows "goals_inv (update_user_profile now msg m)"
    and "progress_inv (update_user_profile now msg m)"
proof -
  let ?ml = "lower msg"
  let ?m1 = "extract_goals now msg ?ml m"
  let ?m5 = "um_extract_performance_metrics msg ?ml
               (extract_progress_updates msg ?ml
                  (extract_emotions_and_insights now msg ?ml
                     (extract_preferences msg ?ml ?m1)))"
  have g: "goals (profile ?m5) = goals (profile ?m1)"
    and p: "progress (profile ?m5) = progress (profile ?m1)"
    by (simp_all add: extract_progress_updates_def)
  have "goals_inv ?m5"
    using goals_inv_cong [OF g p] extract_goals_goals_inv [OF assms(1)] by simp
  moreover have "progress_inv ?m5"
    using progress_inv_cong [OF p] extract_goals_progress_inv [OF assms(2)] by simp
  ultimately show "goals_inv (update_user_profile now msg m)"
    and "progress_inv (update_user_profile now msg m)"
    by (simp_all add: update_user_profile_def Let_def mental_state_goals_inv
          mental_state_progress_inv)
qed

lemma add_message_inv:
  assumes "goals_inv m" and "progress_inv m"
  shows "goals_inv (add_message cap now role content m)"
    and "progress_inv (add_message cap now role content m)"
proof -
  let ?m1 = "m\<lparr>conversation_history :=
               (let h = conversation_history m @
                          [\<lparr>e_role = role, e_content = content, e_timestamp = now\<rparr>]
                in if int (length h) > cap then last_slice h cap else h)\<rparr>"
  have "goals_inv ?m1" and "progress_inv ?m1"
    using assms by (simp_all add: goals_inv_def progress_inv_def)
  then have u: "goals_inv (update_user_profile now content ?m1)"
    "progress_inv (update_user_profile now content ?m1)"
    by (rule update_user_profile_inv)+
  have "goals_inv (monitor_safety now content (update_user_profile now content ?m1))"
    using u(1) by (simp add: goals_inv_def)
  moreover have "progress_inv (monitor_safety now content (update_user_profile now content ?m1))"
    using u(2) by (simp add: progress_inv_def)
  ultimately show "goals_inv (add_message cap now role content m)"
    and "progress_inv (add_message cap now role content m)"
    using \<open>goals_inv ?m1\<close> \<open>progress_inv ?m1\<close>
    by (simp_all add: add_message_def Let_def)
qed

lemma run_inv: "goals_inv (run cap uid calls) \<and> progress_inv (run cap uid calls)"
proof (induction calls rule: rev_induct)
  case Nil
  show ?case by (simp add: run_def new_UserMemory_def goals_inv_def progress_inv_def)
next
  case (snoc c calls)
  then have g: "goals_inv (run cap uid calls)" and p: "progress_inv (run cap uid calls)"
    by simp_all
  show ?case
  proof (cases c)
    case (AddMessage now role content)
    then show ?thesis
      by (simp add: run_snoc add_message_inv [OF g p])
  next
    case (UpdateProgress goal v)
    then show ?thesis
      by (simp add: run_snoc update_progress_goals_inv [OF g] update_progress_progress_inv [OF p])
  next
    case (AddInsight t0 s0)
    then show ?thesis
      using g p by (simp add: run_snoc goals_inv_def progress_inv_def)
  qed
qed





text \<open>
  Claim C10. After any sequence of \<^verbatim>\<open>add_message\<close>, \<^verbatim>\<open>update_progress\<close> and \<^verbatim>\<open>add_insight\<close>
  calls on a new user memory, every string in the profile's goals list is a key of the
  profile's progress mapping.
\<close>
theorem goals_have_progress:
  "\<forall>g \<in> set (goals (profile (run cap uid calls))).
     g \<in> dom (progress (profile (run cap uid calls)))"
  using run_inv [of cap uid calls] by (auto simp: goals_inv_def list_all_iff)

theorem goals_have_progress_witness:
  "''run'' \<in> set (goals (profile (run 10 ''u''
      [AddMessage 1 ''user'' ''I want to run. Good progress'', UpdateProgress ''swim'' 7]))) \<and>
   ''run'' \<in> dom (progress (profile (run 10 ''u''
      [AddMessage 1 ''user'' ''I want to run. Good progress'', UpdateProgress ''swim'' 7])))"
proof -
  have h: "''run'' \<in> set (goals (profile (run 10 ''u''
      [AddMessage 1 ''user'' ''I want to run. Good progress'', UpdateProgress ''swim'' 7])))"
    by code_simp
  show ?thesis
    by (intro conjI h goals_have_progress [THEN bspec, OF h])
qed

section \<open>Goal extraction\<close>

lemma extract_goals_new:
  assumes "find (\<lambda>k. contains k ml) goal_keywords = Some k"
      and "text_after k msg ml = g" and "g \<noteq> []" and "g \<notin> set (goals (profile m))"
  shows "goals (profile (extract_goals now msg ml m)) = goals (profile m) @ [g]"
    and "progress (profile (extract_goals now msg ml m)) = (progress (profile m))(g \<mapsto> 0)"
    and "insights (profile (extract_goals now msg ml m)) =
           insights (profile m) @
           [\<lparr>i_content = ''New goal identified: '' @ g, i_timestamp = now\<rparr>]"
  using assms by (simp_all add: extract_goals_def Let_def)

lemma extract_goals_known:
  assumes "find (\<lambda>k. contains k ml) goal_keywords = Some k"
      and "text_after k msg ml = g" and "g \<in> set (goals (profile m))"
  shows "extract_goals now msg ml m = m"
  using assms by (simp add: extract_goals_def Let_def)

lemma distinct_count_one: "distinct ys \<Longrightarrow> y \<in> set ys \<Longrightarrow> count_list ys y = 1"
  by (induction ys) auto

text \<open>
  Claim C7. Let two messages (the same one twice, or any two) yield the same non-empty
  extracted goal string. Extracting goals from the first and then from the second, in a
  memory whose goals are distinct, leaves that string exactly once in the goals list. The
  first extraction, when the goal is new, sets its progress entry to 0; an extraction whose
  goal is already in the goals list changes nothing at all, so the progress entry is not
  reset whatever its value has become. The goals list of every run is free of duplicates.
\<close>
theorem goal_extracted_once:
  assumes "find (\<lambda>k. contains k (lower msg1)) goal_keywords = Some k1"
      and "text_after k1 msg1 (lower msg1) = g"
      and "find (\<lambda>k. contains k (lower msg2)) goal_keywords = Some k2"
      and "text_after k2 msg2 (lower msg2) = g"
      and "g \<noteq> []"
      and "distinct (goals (profile m))"
  shows "count_list
           (goals (profile (extract_goals t2 msg2 (lower msg2)
                              (extract_goals t1 msg1 (lower msg1) m)))) g = 1 \<and>
         (g \<notin> set (goals (profile m)) \<longrightarrow>
            progress (profile (extract_goals t1 msg1 (lower msg1) m)) g = Some 0) \<and>
         (\<forall>m'. g \<in> set (goals (profile m')) \<longrightarrow>
            extract_goals t2 msg2 (lower msg2) m' = m') \<and>
         distinct (goals (profile (run cap uid calls)))"
proof -
  let ?m1 = "extract_goals t1 msg1 (lower msg1) m"
  have in1: "g \<in> set (goals (profile ?m1))"
  proof (cases "g \<in> set (goals (profile m))")
    case True
    then show ?thesis using extract_goals_known [OF assms(1,2)] by simp
  next
    case False
    then show ?thesis using extract_goals_new(1) [OF assms(1,2,5)] by simp
  qed
  have d1: "distinct (goals (profile ?m1))"
  proof (cases "g \<in> set (goals (profile m))")
    case True
    then show ?thesis using extract_goals_known [OF assms(1,2)] assms(6) by simp
  next
    case False
    then show ?thesis using extract_goals_new(1) [OF assms(1,2,5)] assms(6) by simp
  qed
  have same: "extract_goals t2 msg2 (lower msg2) ?m1 = ?m1"
    using extract_goals_known [OF assms(3,4) in1] .
  have c: "count_list (goals (profile ?m1)) g = 1"
    using d1 in1 by (rule distinct_count_one)
  have init: "g \<notin> set (goals (profile m)) \<longrightarrow> progress (profile ?m1) g = Some 0"
    using extract_goals_new(2) [OF assms(1,2,5)] by simp
  have keep: "\<forall>m'. g \<in> set (goals (profile m')) \<longrightarrow>
                extract_goals t2 msg2 (lower msg2) m' = m'"
    using extract_goals_known [OF assms(3,4)] by blast
  have dr: "distinct (goals (profile (run cap uid calls)))"
    using run_inv [of cap uid calls] by (simp add: goals_inv_def)
  show ?thesis
    using c init keep dr by (simp add: same)
qed

theorem goal_extracted_once_witness:
  "find (\<lambda>k. contains k (lower ''I want to run.'')) goal_keywords = Some ''want to'' \<and>
   text_after ''want to'' ''I want to run.'' (lower ''I want to run.'') = ''run'' \<and>
   ''run'' \<noteq> [] \<and>
   distinct (goals (profile (new_UserMemory ''u''))) \<and>
   ''run'' \<notin> set (goals (profile (new_UserMemory ''u''))) \<and>
   count_list
     (goals (profile (extract_goals 2 ''I want to run.'' (lower ''I want to run.'')
                        (extract_goals 1 ''I want to run.'' (lower ''I want to run.'')
                           (new_UserMemory ''u''))))) ''run'' = 1 \<and>
   progress (profile (extract_goals 1 ''I want to run.'' (lower ''I want to run.'')
                        (new_UserMemory ''u''))) ''run'' = Some 0"
proof -
  have h1: "find (\<lambda>k. contains k (lower ''I want to run.'')) goal_keywords = Some ''want to''"
    by code_simp
  have h2: "text_after ''want to'' ''I want to run.'' (lower ''I want to run.'') = ''run''"
    by code_simp
  have h3: "''run'' \<noteq> []" by simp
  have h4: "distinct (goals (profile (new_UserMemory ''u'')))"
    by (simp add: new_UserMemory_def)
  have h5: "''run'' \<notin> set (goals (profile (new_UserMemory ''u'')))"
    by (simp add: new_UserMemory_def)
  note r = goal_extracted_once [OF h1 h2 h1 h2 h3 h4, of 2 1 10 "''u''" "[]"]
  show ?thesis
    by (intro conjI h1 h2 h3 h4 h5 r [THEN conjunct1]
          r [THEN conjunct2, THEN conjunct1, THEN mp, OF h5])
qed

section \<open>Progress updates\<close>








end
